theory Spec2Isabelle
  imports Main "HOL-Library.Word"
begin

section \<open>The keyforge-network session server and its client\<close>

text \<open>
  The development embeds two Go files of package \<open>kfnetwork\<close>: \<open>client.go\<close> (the
  \<open>Client\<close> struct and its \<open>Send*\<close> methods) and \<open>server_response.go\<close> (the
  dispatcher \<open>HandlePacket\<close> and the request handlers of \<open>Server\<close>).  A second,
  unnamed copy of the handler file is an earlier revision of \<open>server_response.go\<close>
  (six dispatcher cases, no kick and no leave handler, a join response sent to the
  joiner only); the handlers below follow \<open>server_response.go\<close>.

  The handlers are methods of a \<open>Server\<close> whose declaration, together with \<open>Player\<close>,
  \<open>Lobby\<close>, the packet structs, the registry helpers and the transport helpers, lives
  in files that are not part of the sources at hand.  Those parts are modelled from the
  specification; each such definition says so.

  Conventions of the embedding:
  \<^item> a Go pointer \<open>*Player\<close> is a record carrying the address \<open>ref\<close> of the object;
    pointer comparison is comparison of \<open>ref\<close>;
  \<^item> a \<open>*Lobby\<close> obtained from a lookup is the position of the lobby in the lobby
    registry, and a method mutating the lobby updates that position;
  \<^item> what a handler does to the outside world is recorded in three traces of the
    server state: \<open>sent\<close> (packets handed to the transport, in order), \<open>closed\<close>
    (connections closed) and \<open>logged\<close> (entries passed to the server's \<open>Log\<close>);
  \<^item> a Go \<open>error\<close> result is an \<open>error option\<close> (\<open>None\<close> is \<open>nil\<close>);
  \<^item> the model runs one handler at a time.  A handler that locks a player's mutex
    while it still holds that mutex never returns (Go's mutex is not reentrant); this
    is the outcome \<open>Blocks\<close>.
\<close>

subsection \<open>Packets\<close>

type_synonym Conn = nat
type_synonym LobbyID = nat

text \<open>
  Modelled from the spec: the packet type tags (the constants \<open>PacketType...\<close> are
  declared outside the sources at hand).  One constructor per request tag named by the
  sources or the specification, and \<open>PacketTypeOther\<close> for every other tag.
\<close>

datatype PacketType =
    PacketTypeVersionRequest
  | PacketTypeLoginRequest
  | PacketTypeExit
  | PacketTypeCreateLobbyRequest
  | PacketTypeCardPileRequest
  | PacketTypePlayerListRequest
  | PacketTypeGlobalChatRequest
  | PacketTypeLobbyChatRequest
  | PacketTypeLobbyListRequest
  | PacketTypeJoinLobbyRequest
  | PacketTypeLeaveLobbyRequest
  | PacketTypeLobbyKickRequest
  | PacketTypeOther nat

text \<open>
  Modelled from the spec: the packet structs.  Each embeds the header with the \<open>Type\<close>
  tag; the remaining fields are the ones the sources read or write.  A struct of which
  only the header is used is the header.
\<close>

record PacketHeader =
  Type :: PacketType

record VersionPacket = PacketHeader +
  Version :: nat

record LoginRequestPacket = PacketHeader +
  Name :: string
  ID :: string
  Token :: string

type_synonym ExitPacket = PacketHeader

record CreateLobbyRequestPacket = PacketHeader +
  Name :: string

record CardPileRequestPacket = PacketHeader +
  Pile :: "8 word"

type_synonym PlayerListRequestPacket = PacketHeader

record GlobalChatRequestPacket = PacketHeader +
  Message :: string

type_synonym LobbyChatRequestPacket = PacketHeader

type_synonym LobbyListRequestPacket = PacketHeader

record JoinLobbyRequestPacket = PacketHeader +
  ID :: LobbyID
  Name :: string

record LeaveLobbyRequestPacket = PacketHeader +
  ID :: LobbyID
  Name :: string

record LobbyKickRequestPacket = PacketHeader +
  Target :: string

text \<open>
  The Go interface \<open>Packet\<close>: a value of one of the concrete packet structs.  The
  dynamic type and the \<open>Type\<close> tag of the header are independent of each other, as
  they are in Go.
\<close>

datatype Packet =
    PktVersion VersionPacket
  | PktLoginRequest LoginRequestPacket
  | PktExit ExitPacket
  | PktCreateLobbyRequest CreateLobbyRequestPacket
  | PktCardPileRequest CardPileRequestPacket
  | PktPlayerListRequest PlayerListRequestPacket
  | PktGlobalChatRequest GlobalChatRequestPacket
  | PktLobbyChatRequest LobbyChatRequestPacket
  | PktLobbyListRequest LobbyListRequestPacket
  | PktJoinLobbyRequest JoinLobbyRequestPacket
  | PktLeaveLobbyRequest LeaveLobbyRequestPacket
  | PktLobbyKickRequest LobbyKickRequestPacket
  | PktOther PacketHeader

fun GetHeader :: "Packet \<Rightarrow> PacketHeader" where
  "GetHeader (PktVersion p) = \<lparr>Type = Type p\<rparr>"
| "GetHeader (PktLoginRequest p) = \<lparr>Type = Type p\<rparr>"
| "GetHeader (PktExit p) = \<lparr>Type = Type p\<rparr>"
| "GetHeader (PktCreateLobbyRequest p) = \<lparr>Type = Type p\<rparr>"
| "GetHeader (PktCardPileRequest p) = \<lparr>Type = Type p\<rparr>"
| "GetHeader (PktPlayerListRequest p) = \<lparr>Type = Type p\<rparr>"
| "GetHeader (PktGlobalChatRequest p) = \<lparr>Type = Type p\<rparr>"
| "GetHeader (PktLobbyChatRequest p) = \<lparr>Type = Type p\<rparr>"
| "GetHeader (PktLobbyListRequest p) = \<lparr>Type = Type p\<rparr>"
| "GetHeader (PktJoinLobbyRequest p) = \<lparr>Type = Type p\<rparr>"
| "GetHeader (PktLeaveLobbyRequest p) = \<lparr>Type = Type p\<rparr>"
| "GetHeader (PktLobbyKickRequest p) = \<lparr>Type = Type p\<rparr>"
| "GetHeader (PktOther h) = h"

text \<open>
  Modelled from the spec: the response packets the server produces
  (\<open>ErrorPacket(message)\<close>, \<open>CreateLobbyResponse(lobbyID)\<close>,
  \<open>PlayerListResponse(count, list of {ID, Name})\<close>, \<open>GlobalChatResponse(senderName,
  message)\<close>, \<open>LobbyListResponse(count, list of {ID, Name})\<close>,
  \<open>JoinLobbyResponse(lobbyName, lobbyID, success)\<close>, \<open>LeaveLobbyResponse(lobbyName,
  lobbyID, success)\<close>, \<open>LobbyKickResponse(targetID, success)\<close>).
\<close>

datatype Response =
    ErrorPacket string
  | CreateLobbyResponse LobbyID
  | PlayerListResponse nat "(string \<times> string) list"
  | GlobalChatResponse string string
  | LobbyListResponse nat "(LobbyID \<times> string) list"
  | JoinLobbyResponse string LobbyID bool
  | LeaveLobbyResponse string LobbyID bool
  | LobbyKickResponse string bool

subsection \<open>Errors, outcomes and the environment\<close>

text \<open>
  Go's \<open>error\<close> values.  \<open>errors_New m\<close> is \<open>errors.New(m)\<close>, with the message of
  the source.  \<open>LookupError\<close> is the error of a failed registry lookup (the spec's
  "LookupError (unknown connection/player/lobby)"; the messages of the lookup helpers
  are not in the sources at hand).  \<open>ExternalError\<close> is an error of the identity
  service or of the transport.
\<close>

datatype error = errors_New string | LookupError | ExternalError string

datatype 'a outcome = Returns 'a | Blocks | Panics

datatype Identity = Identity (identity_ID: string)

text \<open>
  What the code takes from outside: the constants \<open>ProtocolVersion\<close> and
  \<open>CardPileArchive\<close>, the identity service \<open>RetrieveProfile\<close>, and whether a write
  to a connection fails (the client's \<open>WritePacket\<close>, the server's response sender).
\<close>

record Env =
  ProtocolVersion :: nat
  CardPileArchive :: "8 word"
  RetrieveProfile :: "string \<Rightarrow> error + Identity"
  write_error :: "Conn \<Rightarrow> Packet \<Rightarrow> error option"
  send_error :: "Conn \<Rightarrow> Response \<Rightarrow> error option"

subsection \<open>The client (client.go)\<close>

record Client =
  Connection :: Conn
  Sequence :: "16 word"

text \<open>
  The client together with the packets it has written to its connection, in order.
  The model is of a connected client (\<open>Connection\<close> is set by \<open>Connect\<close>).
\<close>

type_synonym ClientState = "Client \<times> (Conn \<times> Packet) list"

text \<open>
  Modelled from the spec: \<open>WritePacket\<close> writes the packet to the connection through
  the codec; the write may fail.
\<close>

definition WritePacket ::
  "Env \<Rightarrow> Conn \<Rightarrow> Packet \<Rightarrow> (Conn \<times> Packet) list \<Rightarrow> error option \<times> (Conn \<times> Packet) list" where
  "WritePacket env conn packet wire = (write_error env conn packet, wire @ [(conn, packet)])"

definition SendVersionRequest :: "Env \<Rightarrow> ClientState \<Rightarrow> error option \<times> ClientState" where
  "SendVersionRequest env st =
     (case st of (c, wire) \<Rightarrow>
        let packet = \<lparr>Type = PacketTypeVersionRequest, Version = ProtocolVersion env\<rparr>;
            (e, wire') = WritePacket env (Connection c) (PktVersion packet) wire
        in (e, (c\<lparr>Sequence := Sequence c + 1\<rparr>, wire')))"

definition SendExitRequest :: "Env \<Rightarrow> ClientState \<Rightarrow> error option \<times> ClientState" where
  "SendExitRequest env st =
     (case st of (c, wire) \<Rightarrow>
        let packet = \<lparr>Type = PacketTypeExit\<rparr>;
            (e, wire') = WritePacket env (Connection c) (PktExit packet) wire
        in (e, (c\<lparr>Sequence := Sequence c + 1\<rparr>, wire')))"

definition SendLoginRequest ::
  "Env \<Rightarrow> string \<Rightarrow> string \<Rightarrow> string \<Rightarrow> ClientState \<Rightarrow> error option \<times> ClientState" where
  "SendLoginRequest env name id' token st =
     (case st of (c, wire) \<Rightarrow>
        let packet = \<lparr>Type = PacketTypeLoginRequest, LoginRequestPacket.Name = name,
                      LoginRequestPacket.ID = id', Token = token\<rparr>;
            (e, wire') = WritePacket env (Connection c) (PktLoginRequest packet) wire
        in (e, (c\<lparr>Sequence := Sequence c + 1\<rparr>, wire')))"

definition SendCreateLobbyRequest ::
  "Env \<Rightarrow> string \<Rightarrow> ClientState \<Rightarrow> error option \<times> ClientState" where
  "SendCreateLobbyRequest env name st =
     (case st of (c, wire) \<Rightarrow>
        let packet = \<lparr>Type = PacketTypeCreateLobbyRequest, CreateLobbyRequestPacket.Name = name\<rparr>;
            (e, wire') = WritePacket env (Connection c) (PktCreateLobbyRequest packet) wire
        in (e, (c\<lparr>Sequence := Sequence c + 1\<rparr>, wire')))"

definition SendGetCardPile ::
  "Env \<Rightarrow> 8 word \<Rightarrow> ClientState \<Rightarrow> error option \<times> ClientState" where
  "SendGetCardPile env pile st =
     (case st of (c, wire) \<Rightarrow>
        let packet = \<lparr>Type = PacketTypeCardPileRequest, Pile = pile\<rparr>;
            (e, wire') = WritePacket env (Connection c) (PktCardPileRequest packet) wire
        in (e, (c\<lparr>Sequence := Sequence c + 1\<rparr>, wire')))"

definition SendPlayerListRequest :: "Env \<Rightarrow> ClientState \<Rightarrow> error option \<times> ClientState" where
  "SendPlayerListRequest env st =
     (case st of (c, wire) \<Rightarrow>
        let packet = \<lparr>Type = PacketTypePlayerListRequest\<rparr>;
            (e, wire') = WritePacket env (Connection c) (PktPlayerListRequest packet) wire
        in (e, (c\<lparr>Sequence := Sequence c + 1\<rparr>, wire')))"

definition SendGlobalChatRequest ::
  "Env \<Rightarrow> string \<Rightarrow> ClientState \<Rightarrow> error option \<times> ClientState" where
  "SendGlobalChatRequest env message st =
     (case st of (c, wire) \<Rightarrow>
        let packet = \<lparr>Type = PacketTypeGlobalChatRequest, Message = message\<rparr>;
            (e, wire') = WritePacket env (Connection c) (PktGlobalChatRequest packet) wire
        in (e, (c\<lparr>Sequence := Sequence c + 1\<rparr>, wire')))"

definition SendLobbyListRequest :: "Env \<Rightarrow> ClientState \<Rightarrow> error option \<times> ClientState" where
  "SendLobbyListRequest env st =
     (case st of (c, wire) \<Rightarrow>
        let packet = \<lparr>Type = PacketTypeLobbyListRequest\<rparr>;
            (e, wire') = WritePacket env (Connection c) (PktLobbyListRequest packet) wire
        in (e, (c\<lparr>Sequence := Sequence c + 1\<rparr>, wire')))"

text \<open>
  \<open>SendJoinLobbyRequest\<close> sets only \<open>Name\<close>; \<open>ID\<close> keeps Go's zero value.
\<close>

definition SendJoinLobbyRequest ::
  "Env \<Rightarrow> string \<Rightarrow> ClientState \<Rightarrow> error option \<times> ClientState" where
  "SendJoinLobbyRequest env query st =
     (case st of (c, wire) \<Rightarrow>
        let packet = \<lparr>Type = PacketTypeJoinLobbyRequest, JoinLobbyRequestPacket.ID = 0,
                      JoinLobbyRequestPacket.Name = query\<rparr>;
            (e, wire') = WritePacket env (Connection c) (PktJoinLobbyRequest packet) wire
        in (e, (c\<lparr>Sequence := Sequence c + 1\<rparr>, wire')))"

text \<open>\<open>SendGetArchivePile\<close> calls \<open>SendGetCardPile\<close> and drops its result.\<close>

definition SendGetArchivePile :: "Env \<Rightarrow> ClientState \<Rightarrow> ClientState" where
  "SendGetArchivePile env st = snd (SendGetCardPile env (CardPileArchive env) st)"

text \<open>
  A call of one of the nine \<open>Send*\<close> methods that write a packet, and a sequence of
  such calls.
\<close>

datatype SendCall =
    CallSendVersionRequest
  | CallSendExitRequest
  | CallSendLoginRequest string string string
  | CallSendCreateLobbyRequest string
  | CallSendGetCardPile "8 word"
  | CallSendPlayerListRequest
  | CallSendGlobalChatRequest string
  | CallSendLobbyListRequest
  | CallSendJoinLobbyRequest string

fun send_call :: "Env \<Rightarrow> SendCall \<Rightarrow> ClientState \<Rightarrow> error option \<times> ClientState" where
  "send_call env CallSendVersionRequest st = SendVersionRequest env st"
| "send_call env CallSendExitRequest st = SendExitRequest env st"
| "send_call env (CallSendLoginRequest name id' token) st = SendLoginRequest env name id' token st"
| "send_call env (CallSendCreateLobbyRequest name) st = SendCreateLobbyRequest env name st"
| "send_call env (CallSendGetCardPile pile) st = SendGetCardPile env pile st"
| "send_call env CallSendPlayerListRequest st = SendPlayerListRequest env st"
| "send_call env (CallSendGlobalChatRequest message) st = SendGlobalChatRequest env message st"
| "send_call env CallSendLobbyListRequest st = SendLobbyListRequest env st"
| "send_call env (CallSendJoinLobbyRequest query) st = SendJoinLobbyRequest env query st"

fun send_calls :: "Env \<Rightarrow> SendCall list \<Rightarrow> ClientState \<Rightarrow> ClientState" where
  "send_calls env [] st = st"
| "send_calls env (call # calls) st = send_calls env calls (snd (send_call env call st))"

subsection \<open>Players, lobbies and the server state\<close>

text \<open>
  Modelled from the spec: \<open>Player\<close> (\<open>{ID, Name, Connection}\<close>; the source calls the
  connection field \<open>Client\<close>).  \<open>ref\<close> is the address of the Go object.  The sequence
  counter of the specification is left out: no handler reads or writes it.  The
  player's lock is not a field: the handlers below track the locks they hold.
\<close>

record Player =
  ref :: nat
  Name :: string
  ID :: string
  Client :: Conn

text \<open>
  Modelled from the spec: \<open>Lobby\<close> (\<open>{ID, Name, Host, Members}\<close>).  The methods
  \<open>ID()\<close>, \<open>Name()\<close>, \<open>Host()\<close> and \<open>Players()\<close> of the source read the fields
  \<open>lobbyID\<close>, \<open>name\<close>, \<open>host\<close> and \<open>players\<close>.
\<close>

record Lobby =
  lobbyID :: LobbyID
  name :: string
  host :: Player
  players :: "Player list"

text \<open>
  The entries given to the logging port, one constructor per format string of the
  source, with the arguments of the format:
  \<^item> \<open>LogHandleVersionPacket\<close>: "HandleVersionPacket: %+v";
  \<^item> \<open>LogVersionMismatch\<close>: "Client %s sent a version packet with a mismatching version.";
  \<^item> \<open>LogHandlerError\<close>: "HandleCreateLobbyRequest: %s" and "HandlePlayerListRequest: %s";
  \<^item> \<open>LogLobbyCreated\<close>: "Player %s created lobby %s (%s)";
  \<^item> \<open>LogPlayerListRequested\<close>: "Player %s requested the player list";
  \<^item> \<open>LogGlobalChat\<close>: "(Global Chat) %s: %s";
  \<^item> \<open>LogLobbyListRequested\<close>: "Player %s requested a lobby list.";
  \<^item> \<open>LogKickDenied\<close>: "%s attempted to kick player %s, but they are not the host.".
\<close>

datatype LogEntry =
    LogHandleVersionPacket VersionPacket
  | LogVersionMismatch Conn
  | LogHandlerError string error
  | LogLobbyCreated string string LobbyID
  | LogPlayerListRequested string
  | LogGlobalChat string string
  | LogLobbyListRequested string
  | LogKickDenied string string

text \<open>
  Modelled from the spec: \<open>Server\<close> holds the Player Registry \<open>Clients\<close> and the Lobby
  Registry \<open>Lobbies\<close> (both iterated in insertion order) and the debug flag.  \<open>fresh\<close>
  is the next unused address or lobby identifier; \<open>sent\<close>, \<open>closed\<close> and \<open>logged\<close>
  are the traces of the transport and of the logging port.
\<close>

record Server =
  Clients :: "Player list"
  Lobbies :: "Lobby list"
  Debug :: bool
  fresh :: nat
  sent :: "(Conn \<times> Response) list"
  closed :: "Conn list"
  logged :: "LogEntry list"

subsection \<open>Registry and transport helpers\<close>

text \<open>The position of the first element that satisfies \<open>P\<close>.\<close>

fun index_where :: "('a \<Rightarrow> bool) \<Rightarrow> 'a list \<Rightarrow> nat option" where
  "index_where P [] = None"
| "index_where P (x # xs) = (if P x then Some 0 else map_option Suc (index_where P xs))"

text \<open>Modelled from the spec: \<open>Server.Log\<close> hands an entry to the logging port.\<close>

definition Log :: "Server \<Rightarrow> LogEntry \<Rightarrow> Server" where
  "Log s entry = s\<lparr>logged := logged s @ [entry]\<rparr>"

text \<open>
  Modelled from the spec: the Response Sender, which "serializes and writes an outbound
  packet to a specific player's connection".  \<open>Send\<close> is the common body of the
  \<open>Send*\<close> helpers of the server, none of which is in the sources at hand: the packet
  is handed to the transport, and the write may fail.
\<close>

definition Send :: "Env \<Rightarrow> Server \<Rightarrow> Conn \<Rightarrow> Response \<Rightarrow> error option \<times> Server" where
  "Send env s conn packet = (send_error env conn packet, s\<lparr>sent := sent s @ [(conn, packet)]\<rparr>)"

text \<open>Modelled from the spec: \<open>Server.SendErrorPacket\<close> sends \<open>ErrorPacket(message)\<close> to a connection.\<close>

definition SendErrorPacket :: "Env \<Rightarrow> Server \<Rightarrow> Conn \<Rightarrow> string \<Rightarrow> error option \<times> Server" where
  "SendErrorPacket env s client message = Send env s client (ErrorPacket message)"

text \<open>Modelled from the spec: \<open>Server.SendCreateLobbyResponse\<close> sends \<open>CreateLobbyResponse(lobbyID)\<close> to a player.\<close>

definition SendCreateLobbyResponse ::
  "Env \<Rightarrow> Server \<Rightarrow> Player \<Rightarrow> LobbyID \<Rightarrow> error option \<times> Server" where
  "SendCreateLobbyResponse env s player lid = Send env s (Client player) (CreateLobbyResponse lid)"

text \<open>Modelled from the spec: \<open>Server.SendPlayerListResponse\<close> sends \<open>PlayerListResponse(count, list)\<close> to a player.\<close>

definition SendPlayerListResponse ::
  "Env \<Rightarrow> Server \<Rightarrow> Player \<Rightarrow> nat \<times> (string \<times> string) list \<Rightarrow> error option \<times> Server" where
  "SendPlayerListResponse env s player playerList =
     Send env s (Client player) (PlayerListResponse (fst playerList) (snd playerList))"

text \<open>Modelled from the spec: \<open>Server.SendGlobalChatResponse\<close> sends \<open>GlobalChatResponse(senderName, message)\<close> to a player.\<close>

definition SendGlobalChatResponse ::
  "Env \<Rightarrow> Server \<Rightarrow> Player \<Rightarrow> string \<Rightarrow> string \<Rightarrow> error option \<times> Server" where
  "SendGlobalChatResponse env s player senderName message =
     Send env s (Client player) (GlobalChatResponse senderName message)"

text \<open>Modelled from the spec: \<open>Server.SendLobbyListResponse\<close> sends \<open>LobbyListResponse(count, list)\<close> to a player.\<close>

definition SendLobbyListResponse ::
  "Env \<Rightarrow> Server \<Rightarrow> Player \<Rightarrow> nat \<times> (LobbyID \<times> string) list \<Rightarrow> error option \<times> Server" where
  "SendLobbyListResponse env s player lobbyList =
     Send env s (Client player) (LobbyListResponse (fst lobbyList) (snd lobbyList))"

text \<open>Modelled from the spec: \<open>Server.SendJoinLobbyResponse\<close> sends \<open>JoinLobbyResponse(lobbyName, lobbyID, success)\<close> to a player.\<close>

definition SendJoinLobbyResponse ::
  "Env \<Rightarrow> Server \<Rightarrow> Player \<Rightarrow> string \<Rightarrow> LobbyID \<Rightarrow> bool \<Rightarrow> error option \<times> Server" where
  "SendJoinLobbyResponse env s player lobbyName lid success =
     Send env s (Client player) (JoinLobbyResponse lobbyName lid success)"

text \<open>Modelled from the spec: \<open>Server.SendLeaveLobbyResponse\<close> sends \<open>LeaveLobbyResponse(lobbyName, lobbyID, success)\<close> to a player.\<close>

definition SendLeaveLobbyResponse ::
  "Env \<Rightarrow> Server \<Rightarrow> Player \<Rightarrow> string \<Rightarrow> LobbyID \<Rightarrow> bool \<Rightarrow> error option \<times> Server" where
  "SendLeaveLobbyResponse env s player lobbyName lid success =
     Send env s (Client player) (LeaveLobbyResponse lobbyName lid success)"

text \<open>Modelled from the spec: \<open>Server.SendLobbyKickResponse\<close> sends \<open>LobbyKickResponse(targetID, success)\<close> to a player.\<close>

definition SendLobbyKickResponse ::
  "Env \<Rightarrow> Server \<Rightarrow> Player \<Rightarrow> string \<Rightarrow> bool \<Rightarrow> error option \<times> Server" where
  "SendLobbyKickResponse env s player targetID success =
     Send env s (Client player) (LobbyKickResponse targetID success)"

text \<open>
  Modelled from the spec: \<open>Server.CloseConnection\<close> "forcibly closes the connection";
  it is not in the sources at hand.
\<close>

definition CloseConnection :: "Server \<Rightarrow> Conn \<Rightarrow> Server" where
  "CloseConnection s client = s\<lparr>closed := closed s @ [client]\<rparr>"

text \<open>
  Modelled from the spec: \<open>NewPlayer\<close> allocates a Player object; the result is its
  address.
\<close>

definition NewPlayer :: "Server \<Rightarrow> nat \<times> Server" where
  "NewPlayer s = (fresh s, s\<lparr>fresh := Suc (fresh s)\<rparr>)"

text \<open>
  Modelled from the spec: \<open>Server.AddPlayer\<close> is the "one registry insertion" of a
  successful login; the registry keeps insertion order.
\<close>

definition AddPlayer :: "Server \<Rightarrow> Player \<Rightarrow> Server" where
  "AddPlayer s player = s\<lparr>Clients := Clients s @ [player]\<rparr>"

text \<open>
  Modelled from the spec: membership.  A player is a Member of a lobby when its
  reference is in the lobby's Member set.
\<close>

definition is_member :: "Player \<Rightarrow> Lobby \<Rightarrow> bool" where
  "is_member player lobby = (ref player \<in> set (map ref (players lobby)))"

text \<open>
  Modelled from the spec: \<open>Lobby.AddPlayer\<close> adds a player to the Member set, "an
  ordered set of Player references": a reference already in it is not added again.
\<close>

definition Lobby_AddPlayer :: "Lobby \<Rightarrow> Player \<Rightarrow> Lobby" where
  "Lobby_AddPlayer lobby player =
     (if is_member player lobby then lobby else lobby\<lparr>players := players lobby @ [player]\<rparr>)"

text \<open>Modelled from the spec: \<open>Lobby.RemovePlayer\<close> removes a player from the Member set.\<close>

definition Lobby_RemovePlayer :: "Lobby \<Rightarrow> Player \<Rightarrow> Lobby" where
  "Lobby_RemovePlayer lobby player =
     lobby\<lparr>players := filter (\<lambda>q. ref q \<noteq> ref player) (players lobby)\<rparr>"

text \<open>
  Modelled from the spec: \<open>Server.RemovePlayer\<close>.  "Removing a Player from the registry
  must also remove it from every Lobby it belongs to."
\<close>

definition RemovePlayer :: "Server \<Rightarrow> Player \<Rightarrow> Server" where
  "RemovePlayer s player =
     s\<lparr>Clients := filter (\<lambda>q. ref q \<noteq> ref player) (Clients s),
       Lobbies := map (\<lambda>lobby. Lobby_RemovePlayer lobby player) (Lobbies s)\<rparr>"

text \<open>
  Modelled from the spec: \<open>Server.AddLobby\<close> creates "a new Lobby with the given name,
  requesting Player as Host and sole initial Member" and inserts it into the Lobby
  Registry.
\<close>

definition AddLobby :: "Server \<Rightarrow> Player \<Rightarrow> string \<Rightarrow> Lobby \<times> Server" where
  "AddLobby s player lobbyName =
     (let lobby = \<lparr>lobbyID = fresh s, name = lobbyName, host = player, players = [player]\<rparr>
      in (lobby, s\<lparr>Lobbies := Lobbies s @ [lobby], fresh := Suc (fresh s)\<rparr>))"

text \<open>
  The lookups are not in the sources at hand.  Each returns the first match in registry
  order, or a lookup error.
\<close>

text \<open>
  Modelled from the spec: \<open>Server.FindPlayerByConnection\<close> resolves a connection to the
  Player registered for it.
\<close>

definition FindPlayerByConnection :: "Server \<Rightarrow> Conn \<Rightarrow> error + Player" where
  "FindPlayerByConnection s client =
     (case find (\<lambda>p. Client p = client) (Clients s) of
        None \<Rightarrow> Inl LookupError | Some p \<Rightarrow> Inr p)"

text \<open>Modelled from the spec: \<open>Server.FindPlayerByID\<close> resolves a Player by its ID.\<close>

definition FindPlayerByID :: "Server \<Rightarrow> string \<Rightarrow> error + Player" where
  "FindPlayerByID s pid =
     (case find (\<lambda>p. Player.ID p = pid) (Clients s) of
        None \<Rightarrow> Inl LookupError | Some p \<Rightarrow> Inr p)"

text \<open>Modelled from the spec: \<open>Server.FindLobbyByID\<close> looks a lobby up by its ID.\<close>

definition FindLobbyByID :: "Server \<Rightarrow> LobbyID \<Rightarrow> error + nat" where
  "FindLobbyByID s lid =
     (case index_where (\<lambda>lobby. lobbyID lobby = lid) (Lobbies s) of
        None \<Rightarrow> Inl LookupError | Some i \<Rightarrow> Inr i)"

text \<open>Modelled from the spec: \<open>Server.FindLobbyByName\<close> looks a lobby up by its Name.\<close>

definition FindLobbyByName :: "Server \<Rightarrow> string \<Rightarrow> error + nat" where
  "FindLobbyByName s lobbyName =
     (case index_where (\<lambda>lobby. name lobby = lobbyName) (Lobbies s) of
        None \<Rightarrow> Inl LookupError | Some i \<Rightarrow> Inr i)"

text \<open>
  Modelled from the spec: \<open>Server.FindLobbyByPlayer\<close> resolves "the Lobby the requester
  currently belongs to".
\<close>

definition FindLobbyByPlayer :: "Server \<Rightarrow> Player \<Rightarrow> error + nat" where
  "FindLobbyByPlayer s player =
     (case index_where (is_member player) (Lobbies s) of
        None \<Rightarrow> Inl LookupError | Some i \<Rightarrow> Inr i)"

text \<open>
  Modelled from the spec: \<open>Server.PlayerHasLobby\<close> says whether the player is
  "currently a member of any lobby".
\<close>

definition PlayerHasLobby :: "Server \<Rightarrow> Player \<Rightarrow> bool" where
  "PlayerHasLobby s player = list_ex (is_member player) (Lobbies s)"

subsection \<open>The handlers (server_response.go)\<close>

definition HandleVersionRequest :: "Env \<Rightarrow> Server \<Rightarrow> Conn \<Rightarrow> VersionPacket \<Rightarrow> Server" where
  "HandleVersionRequest env s client packet =
     (let s1 = Log s (LogHandleVersionPacket packet)
      in if Version packet \<noteq> ProtocolVersion env
         then let s2 = (if Debug s1 then Log s1 (LogVersionMismatch client) else s1);
                  s3 = snd (SendErrorPacket env s2 client ''Protocol version mismatch.'')
              in CloseConnection s3 client
         else s1)"

text \<open>
  The four statements that build the player (\<open>NewPlayer()\<close> and the assignments of
  \<open>Name\<close>, \<open>ID\<close> and \<open>Client\<close>) are one record construction at the new address.
\<close>

definition HandleLoginRequest ::
  "Env \<Rightarrow> Server \<Rightarrow> Conn \<Rightarrow> LoginRequestPacket \<Rightarrow> error option \<times> Server" where
  "HandleLoginRequest env s client packet =
     (case RetrieveProfile env (Token packet) of
        Inl e \<Rightarrow> (Some e, s)
      | Inr vaultUser \<Rightarrow>
          if identity_ID vaultUser \<noteq> LoginRequestPacket.ID packet
          then let s1 = snd (SendErrorPacket env s client ''Login failed.'');
                   s2 = CloseConnection s1 client
               in (Some (errors_New ''incorrect user ID supplied in packet''), s2)
          else let (r, s1) = NewPlayer s;
                   player = \<lparr>ref = r, Name = LoginRequestPacket.Name packet,
                             ID = LoginRequestPacket.ID packet, Client = client\<rparr>
               in (None, AddPlayer s1 player))"

definition HandleExitRequest ::
  "Env \<Rightarrow> Server \<Rightarrow> Conn \<Rightarrow> ExitPacket \<Rightarrow> error option \<times> Server" where
  "HandleExitRequest env s client packet =
     (case FindPlayerByConnection s client of
        Inl e \<Rightarrow> (Some e, s)
      | Inr player \<Rightarrow>
          let s1 = CloseConnection s (Client player)
          in (None, RemovePlayer s1 player))"

text \<open>
  \<open>HandleCreateLobbyRequest\<close> and \<open>HandlePlayerListRequest\<close> lock the requesting
  player once and release the lock on return; no second lock is taken, so they return.
\<close>

definition HandleCreateLobbyRequest ::
  "Env \<Rightarrow> Server \<Rightarrow> Conn \<Rightarrow> CreateLobbyRequestPacket \<Rightarrow> error option \<times> Server" where
  "HandleCreateLobbyRequest env s client packet =
     (case FindPlayerByConnection s client of
        Inl e \<Rightarrow>
          (Some e, if Debug s then Log s (LogHandlerError ''HandleCreateLobbyRequest'' e) else s)
      | Inr player \<Rightarrow>
          let (lobby, s1) = AddLobby s player (CreateLobbyRequestPacket.Name packet);
              s2 = Log s1 (LogLobbyCreated (Name player) (name lobby) (lobbyID lobby))
          in SendCreateLobbyResponse env s2 player (lobbyID lobby))"

definition HandlePlayerListRequest ::
  "Env \<Rightarrow> Server \<Rightarrow> Conn \<Rightarrow> PlayerListRequestPacket \<Rightarrow> error option \<times> Server" where
  "HandlePlayerListRequest env s client packet =
     (case FindPlayerByConnection s client of
        Inl e \<Rightarrow>
          (Some e, if Debug s then Log s (LogHandlerError ''HandlePlayerListRequest'' e) else s)
      | Inr player \<Rightarrow>
          let entries = map (\<lambda>p. (Player.ID p, Player.Name p)) (Clients s);
              playerList = (length entries, entries);
              (e, s1) = SendPlayerListResponse env s player playerList
          in case e of
               Some err \<Rightarrow> (Some err, s1)
             | None \<Rightarrow> (None, Log s1 (LogPlayerListRequested (Name player))))"

definition HandleLobbyChatRequest ::
  "Env \<Rightarrow> Server \<Rightarrow> Conn \<Rightarrow> LobbyChatRequestPacket \<Rightarrow> error option \<times> Server" where
  "HandleLobbyChatRequest env s client packet = (None, s)"

text \<open>
  The broadcast loops.  \<open>locked_sends\<close> is the loop
  \<^verbatim>\<open>for _, p := range ps { p.Lock(); defer p.Unlock(); send(p) }\<close>:
  the deferred unlocks run when the handler returns, so the locks taken by earlier
  iterations (\<open>held\<close>) are still held, and locking a player a second time blocks for
  ever.  \<open>plain_sends\<close> is the loop without locks.  The result of each send is
  discarded, as in the source.
\<close>

fun locked_sends ::
  "Env \<Rightarrow> Response \<Rightarrow> nat list \<Rightarrow> Player list \<Rightarrow> Server \<Rightarrow> unit outcome \<times> Server" where
  "locked_sends env packet held [] s = (Returns (), s)"
| "locked_sends env packet held (p # ps) s =
     (if ref p \<in> set held then (Blocks, s)
      else locked_sends env packet (ref p # held) ps (snd (Send env s (Client p) packet)))"

fun plain_sends :: "Env \<Rightarrow> Response \<Rightarrow> Player list \<Rightarrow> Server \<Rightarrow> Server" where
  "plain_sends env packet [] s = s"
| "plain_sends env packet (p # ps) s = plain_sends env packet ps (snd (Send env s (Client p) packet))"

text \<open>Go's \<open>return nil\<close> after a loop that may have blocked.\<close>

definition return_nil :: "unit outcome \<times> Server \<Rightarrow> error option outcome \<times> Server" where
  "return_nil r = (case r of (Returns u, s) \<Rightarrow> (Returns None, s)
                            | (Blocks, s) \<Rightarrow> (Blocks, s)
                            | (Panics, s) \<Rightarrow> (Panics, s))"

definition HandleGlobalChatRequest ::
  "Env \<Rightarrow> Server \<Rightarrow> Conn \<Rightarrow> GlobalChatRequestPacket \<Rightarrow> error option outcome \<times> Server" where
  "HandleGlobalChatRequest env s client packet =
     (case FindPlayerByConnection s client of
        Inl e \<Rightarrow> (Returns (Some e), s)
      | Inr player \<Rightarrow>
          let playerName = Name player
          in case locked_sends env (GlobalChatResponse playerName (Message packet)) [] (Clients s) s of
               (Returns u, s1) \<Rightarrow> (Returns None, Log s1 (LogGlobalChat playerName (Message packet)))
             | (Blocks, s1) \<Rightarrow> (Blocks, s1)
             | (Panics, s1) \<Rightarrow> (Panics, s1))"

definition HandleLobbyListRequest ::
  "Env \<Rightarrow> Server \<Rightarrow> Conn \<Rightarrow> LobbyListRequestPacket \<Rightarrow> error option \<times> Server" where
  "HandleLobbyListRequest env s client packet =
     (case FindPlayerByConnection s client of
        Inl e \<Rightarrow> (Some e, s)
      | Inr player \<Rightarrow>
          let entries = map (\<lambda>lobby. (lobbyID lobby, name lobby)) (Lobbies s);
              lobbyList = (length entries, entries);
              s1 = snd (SendLobbyListResponse env s player lobbyList)
          in (None, Log s1 (LogLobbyListRequested (Name player))))"

text \<open>
  The body of both successful branches of \<open>HandleJoinLobbyRequest\<close> (the two blocks
  are the same text): add the player to the lobby found, then send the join response to
  every player of the lobby, each under its lock.
\<close>

definition join_found :: "Env \<Rightarrow> Server \<Rightarrow> nat \<Rightarrow> Player \<Rightarrow> error option outcome \<times> Server" where
  "join_found env s i player =
     (let s1 = s\<lparr>Lobbies := (Lobbies s)[i := Lobby_AddPlayer (Lobbies s ! i) player]\<rparr>;
          lobby = Lobbies s1 ! i
      in return_nil
           (locked_sends env (JoinLobbyResponse (name lobby) (lobbyID lobby) True) []
              (players lobby) s1))"

definition HandleJoinLobbyRequest ::
  "Env \<Rightarrow> Server \<Rightarrow> Conn \<Rightarrow> JoinLobbyRequestPacket \<Rightarrow> error option outcome \<times> Server" where
  "HandleJoinLobbyRequest env s client packet =
     (case FindPlayerByConnection s client of
        Inl e \<Rightarrow> (Returns (Some e), s)
      | Inr player \<Rightarrow>
          (case FindLobbyByID s (JoinLobbyRequestPacket.ID packet) of
             Inr i \<Rightarrow> join_found env s i player
           | Inl e1 \<Rightarrow>
               (case FindLobbyByName s (JoinLobbyRequestPacket.Name packet) of
                  Inr i \<Rightarrow> join_found env s i player
                | Inl e2 \<Rightarrow> (Returns (Some (errors_New ''no such lobby found'')), s))))"

text \<open>
  In \<open>HandleLeaveLobbyRequest\<close> the branch of the lookup by ID sends without locks,
  the branch of the lookup by name sends under locks.
\<close>

definition HandleLeaveLobbyRequest ::
  "Env \<Rightarrow> Server \<Rightarrow> Conn \<Rightarrow> LeaveLobbyRequestPacket \<Rightarrow> error option outcome \<times> Server" where
  "HandleLeaveLobbyRequest env s client packet =
     (case FindPlayerByConnection s client of
        Inl e \<Rightarrow> (Returns (Some e), s)
      | Inr player \<Rightarrow>
          if \<not> PlayerHasLobby s player
          then (Returns (Some (errors_New ''player is not in a lobby'')), s)
          else
            (case FindLobbyByID s (LeaveLobbyRequestPacket.ID packet) of
               Inr i \<Rightarrow>
                 let s1 = s\<lparr>Lobbies := (Lobbies s)[i := Lobby_RemovePlayer (Lobbies s ! i) player]\<rparr>;
                     lobby = Lobbies s1 ! i
                 in (Returns None,
                     plain_sends env (LeaveLobbyResponse (name lobby) (lobbyID lobby) True)
                       (players lobby) s1)
             | Inl e1 \<Rightarrow>
                 (case FindLobbyByName s (LeaveLobbyRequestPacket.Name packet) of
                    Inr i \<Rightarrow>
                      let s1 = s\<lparr>Lobbies := (Lobbies s)[i := Lobby_RemovePlayer (Lobbies s ! i) player]\<rparr>;
                          lobby = Lobbies s1 ! i
                      in return_nil
                           (locked_sends env (LeaveLobbyResponse (name lobby) (lobbyID lobby) True) []
                              (players lobby) s1)
                  | Inl e2 \<Rightarrow> (Returns (Some (errors_New ''no such lobby found'')), s))))"

definition HandleLobbyKickRequest ::
  "Env \<Rightarrow> Server \<Rightarrow> Conn \<Rightarrow> LobbyKickRequestPacket \<Rightarrow> error option \<times> Server" where
  "HandleLobbyKickRequest env s client packet =
     (case FindPlayerByConnection s client of
        Inl e \<Rightarrow> (Some e, s)
      | Inr player \<Rightarrow>
          (case FindPlayerByID s (Target packet) of
             Inl e \<Rightarrow> (Some e, s)
           | Inr targetPlayer \<Rightarrow>
               (case FindLobbyByPlayer s player of
                  Inl e \<Rightarrow> (Some e, s)
                | Inr i \<Rightarrow>
                    let lobby = Lobbies s ! i
                    in if ref (host lobby) \<noteq> ref player
                       then (Some (errors_New
                                ''insufficient privileges; must be lobby host to kick users''),
                             Log s (LogKickDenied (Name player) (Name targetPlayer)))
                       else
                         let s1 = s\<lparr>Lobbies := (Lobbies s)[i := Lobby_RemovePlayer lobby targetPlayer]\<rparr>;
                             s2 = snd (SendLobbyKickResponse env s1 player (Player.ID targetPlayer) True);
                             s3 = snd (SendLobbyKickResponse env s2 targetPlayer (Player.ID targetPlayer) True)
                         in (None, s3))))"

subsection \<open>The dispatcher\<close>

text \<open>
  \<open>HandlePacket\<close> switches on the type tag of the header and asserts the dynamic type
  of the packet (\<open>packet.(VersionPacket)\<close>); a failed assertion panics.  The handlers'
  results are discarded.  A tag without a case falls through the switch.
\<close>

definition discard :: "'a \<times> Server \<Rightarrow> unit outcome \<times> Server" where
  "discard r = (Returns (), snd r)"

definition discard_outcome :: "'a outcome \<times> Server \<Rightarrow> unit outcome \<times> Server" where
  "discard_outcome r = (case r of (Returns u, s) \<Rightarrow> (Returns (), s)
                                 | (Blocks, s) \<Rightarrow> (Blocks, s)
                                 | (Panics, s) \<Rightarrow> (Panics, s))"

definition HandlePacket :: "Env \<Rightarrow> Server \<Rightarrow> Conn \<Rightarrow> Packet \<Rightarrow> unit outcome \<times> Server" where
  "HandlePacket env s client packet =
     (case Type (GetHeader packet) of
        PacketTypeVersionRequest \<Rightarrow>
          (case packet of PktVersion p \<Rightarrow> (Returns (), HandleVersionRequest env s client p)
                        | _ \<Rightarrow> (Panics, s))
      | PacketTypeLoginRequest \<Rightarrow>
          (case packet of PktLoginRequest p \<Rightarrow> discard (HandleLoginRequest env s client p)
                        | _ \<Rightarrow> (Panics, s))
      | PacketTypeGlobalChatRequest \<Rightarrow>
          (case packet of PktGlobalChatRequest p \<Rightarrow>
                            discard_outcome (HandleGlobalChatRequest env s client p)
                        | _ \<Rightarrow> (Panics, s))
      | PacketTypePlayerListRequest \<Rightarrow>
          (case packet of PktPlayerListRequest p \<Rightarrow> discard (HandlePlayerListRequest env s client p)
                        | _ \<Rightarrow> (Panics, s))
      | PacketTypeCreateLobbyRequest \<Rightarrow>
          (case packet of PktCreateLobbyRequest p \<Rightarrow> discard (HandleCreateLobbyRequest env s client p)
                        | _ \<Rightarrow> (Panics, s))
      | PacketTypeLobbyListRequest \<Rightarrow>
          (case packet of PktLobbyListRequest p \<Rightarrow> discard (HandleLobbyListRequest env s client p)
                        | _ \<Rightarrow> (Panics, s))
      | PacketTypeJoinLobbyRequest \<Rightarrow>
          (case packet of PktJoinLobbyRequest p \<Rightarrow>
                            discard_outcome (HandleJoinLobbyRequest env s client p)
                        | _ \<Rightarrow> (Panics, s))
      | PacketTypeLeaveLobbyRequest \<Rightarrow>
          (case packet of PktLeaveLobbyRequest p \<Rightarrow>
                            discard_outcome (HandleLeaveLobbyRequest env s client p)
                        | _ \<Rightarrow> (Panics, s))
      | _ \<Rightarrow> (Returns (), s))"

subsection \<open>The join as the specification words it\<close>

text \<open>
  "If a lobby is found by either method, add the requester to its Member set and send a
  join-response \<open>(lobbyName, lobbyID, success=true)\<close> to every current Member of that
  lobby (including the joiner)."  \<open>join_spec s i player\<close> is the server state after
  such a join into the lobby at position \<open>i\<close>; it is compared with the handler below.
\<close>

definition join_spec :: "Server \<Rightarrow> nat \<Rightarrow> Player \<Rightarrow> Server" where
  "join_spec s i player =
     (let lobby = Lobby_AddPlayer (Lobbies s ! i) player
      in s\<lparr>Lobbies := (Lobbies s)[i := lobby],
           sent := sent s @ map (\<lambda>member. (Client member,
                                     JoinLobbyResponse (name lobby) (lobbyID lobby) True))
                              (players lobby)\<rparr>)"

subsection \<open>Member sets\<close>

text \<open>
  The representation invariant of the Member sets: in no lobby does a Player reference
  occur twice.  \<open>empty_server\<close> is the server at process start.
\<close>

definition members_are_sets :: "Server \<Rightarrow> bool" where
  "members_are_sets s = list_all (\<lambda>lobby. distinct (map ref (players lobby))) (Lobbies s)"

definition empty_server :: "bool \<Rightarrow> Server" where
  "empty_server debug =
     \<lparr>Clients = [], Lobbies = [], Debug = debug, fresh = 0, sent = [], closed = [], logged = []\<rparr>"

subsection \<open>A concrete server\<close>

text \<open>
  Three registered players; Alice hosts the lobby "Foo", Bob is a member of it, Carol
  is in no lobby.  The identity service knows one token, Alice's.
\<close>

definition example_env :: Env where
  "example_env =
     \<lparr>ProtocolVersion = 1,
      CardPileArchive = 0,
      RetrieveProfile = (\<lambda>token. if token = ''alice-token'' then Inr (Identity ''alice'')
                                  else Inl (ExternalError ''no profile'')),
      write_error = (\<lambda>conn packet. None),
      send_error = (\<lambda>conn packet. None)\<rparr>"

definition alice :: Player where
  "alice = \<lparr>ref = 0, Name = ''Alice'', ID = ''alice'', Client = 10\<rparr>"

definition bob :: Player where
  "bob = \<lparr>ref = 1, Name = ''Bob'', ID = ''bob'', Client = 11\<rparr>"

definition carol :: Player where
  "carol = \<lparr>ref = 2, Name = ''Carol'', ID = ''carol'', Client = 12\<rparr>"

definition example_lobby :: Lobby where
  "example_lobby = \<lparr>lobbyID = 3, name = ''Foo'', host = alice, players = [alice, bob]\<rparr>"

definition example_server :: Server where
  "example_server =
     \<lparr>Clients = [alice, bob, carol], Lobbies = [example_lobby], Debug = True, fresh = 4,
      sent = [], closed = [], logged = []\<rparr>"

definition example_client :: Client where
  "example_client = \<lparr>Connection = 10, Sequence = 65533\<rparr>"

definition example_client_at_max :: Client where
  "example_client_at_max = \<lparr>Connection = 10, Sequence = 65535\<rparr>"

section \<open>Properties\<close>

subsection \<open>Lookups and member sets\<close>

lemmas example_defs =
  example_env_def alice_def bob_def carol_def example_lobby_def example_server_def

lemmas lookup_defs =
  FindPlayerByConnection_def FindPlayerByID_def FindLobbyByID_def FindLobbyByName_def
  FindLobbyByPlayer_def PlayerHasLobby_def is_member_def

lemma index_whereD: "index_where P xs = Some i \<Longrightarrow> i < length xs \<and> P (xs ! i)"
proof (induction xs arbitrary: i)
  case Nil
  then show ?case by simp
next
  case (Cons x xs)
  then show ?case by (auto split: if_splits)
qed

lemma FindPlayerByID_ID: "FindPlayerByID s pid = Inr p \<Longrightarrow> Player.ID p = pid"
  by (auto simp: FindPlayerByID_def find_Some_iff split: option.splits)

lemma FindLobbyByID_bound: "FindLobbyByID s lid = Inr i \<Longrightarrow> i < length (Lobbies s)"
  by (auto simp: FindLobbyByID_def split: option.splits dest: index_whereD)

lemma FindLobbyByName_bound: "FindLobbyByName s n = Inr i \<Longrightarrow> i < length (Lobbies s)"
  by (auto simp: FindLobbyByName_def split: option.splits dest: index_whereD)

lemma FindLobbyByPlayer_bound: "FindLobbyByPlayer s p = Inr i \<Longrightarrow> i < length (Lobbies s)"
  by (auto simp: FindLobbyByPlayer_def split: option.splits dest: index_whereD)

lemma FindLobbyByPlayer_member: "FindLobbyByPlayer s p = Inr i \<Longrightarrow> is_member p (Lobbies s ! i)"
  by (auto simp: FindLobbyByPlayer_def split: option.splits dest: index_whereD)

lemma not_member_Remove: "\<not> is_member p (Lobby_RemovePlayer l p)"
  by (auto simp: is_member_def Lobby_RemovePlayer_def)

lemma member_AddPlayer: "is_member p (Lobby_AddPlayer l p)"
  by (simp add: Lobby_AddPlayer_def is_member_def)

lemma distinct_AddPlayer:
  "distinct (map ref (players l)) \<Longrightarrow> distinct (map ref (players (Lobby_AddPlayer l p)))"
  by (simp add: Lobby_AddPlayer_def is_member_def)

subsection \<open>The broadcast loops\<close>

text \<open>
  A locked loop over players with pairwise different addresses, none of them locked
  before, returns, and has sent the packet to each player in order.
\<close>

lemma locked_sends_distinct:
  "distinct (map ref ps) \<Longrightarrow> set (map ref ps) \<inter> set held = {} \<Longrightarrow>
   locked_sends env packet held ps s =
     (Returns (), s\<lparr>sent := sent s @ map (\<lambda>p. (Client p, packet)) ps\<rparr>)"
proof (induction ps arbitrary: held s)
  case Nil
  then show ?case by simp
next
  case (Cons p ps)
  from Cons.prems have unlocked: "ref p \<notin> set held" by auto
  from Cons.prems have "distinct (map ref ps)" and "set (map ref ps) \<inter> set (ref p # held) = {}"
    by auto
  then have "locked_sends env packet (ref p # held) ps (snd (Send env s (Client p) packet)) =
     (Returns (), (snd (Send env s (Client p) packet))
        \<lparr>sent := sent (snd (Send env s (Client p) packet)) @ map (\<lambda>p. (Client p, packet)) ps\<rparr>)"
    by (rule Cons.IH)
  with unlocked show ?case by (simp add: Send_def)
qed

text \<open>A player that occurs twice in the loop blocks it: the second \<open>Lock\<close> never returns.\<close>

lemma locked_sends_twice:
  "fst (locked_sends env packet [] [p, p] s) = Blocks"
  by simp

lemma join_found_distinct:
  assumes "i < length (Lobbies s)" and "distinct (map ref (players (Lobbies s ! i)))"
  shows "join_found env s i player = (Returns None, join_spec s i player)"
proof -
  have "distinct (map ref (players (Lobby_AddPlayer (Lobbies s ! i) player)))"
    using assms(2) by (rule distinct_AddPlayer)
  then show ?thesis
    using assms(1)
    by (simp add: join_found_def join_spec_def Let_def locked_sends_distinct return_nil_def)
qed

lemma join_spec_members:
  assumes "k < length (Lobbies s)"
  shows "is_member player (Lobbies (join_spec s k player) ! k)
       \<and> (\<forall>member \<in> set (players (Lobbies (join_spec s k player) ! k)).
             (Client member,
              JoinLobbyResponse (name (Lobbies s ! k)) (lobbyID (Lobbies s ! k)) True)
               \<in> set (drop (length (sent s)) (sent (join_spec s k player))))"
proof -
  have at_k: "Lobbies (join_spec s k player) ! k = Lobby_AddPlayer (Lobbies s ! k) player"
    using assms by (simp add: join_spec_def Let_def)
  have same: "name (Lobby_AddPlayer (Lobbies s ! k) player) = name (Lobbies s ! k)"
    "lobbyID (Lobby_AddPlayer (Lobbies s ! k) player) = lobbyID (Lobbies s ! k)"
    by (simp_all add: Lobby_AddPlayer_def)
  have new: "drop (length (sent s)) (sent (join_spec s k player)) =
      map (\<lambda>member. (Client member,
             JoinLobbyResponse (name (Lobbies s ! k)) (lobbyID (Lobbies s ! k)) True))
        (players (Lobby_AddPlayer (Lobbies s ! k) player))"
    by (simp add: join_spec_def Let_def same)
  show ?thesis
    unfolding at_k new by (simp add: member_AddPlayer)
qed

subsection \<open>Login\<close>

text \<open>
  Claim C1.  For every LoginRequest packet where the Identity Service returns an
  Identity whose ID differs from the packet's claimed ID, \<open>HandleLoginRequest\<close> sends
  exactly one ErrorPacket with message "Login failed.", closes the connection, returns
  an authentication error, and adds no Player to the Player Registry: the state after
  the handler is the state before it with one packet more in \<open>sent\<close> and one
  connection more in \<open>closed\<close>.
\<close>

theorem HandleLoginRequest_id_mismatch:
  assumes "RetrieveProfile env (Token packet) = Inr vaultUser"
      and "identity_ID vaultUser \<noteq> LoginRequestPacket.ID packet"
  shows "HandleLoginRequest env s client packet =
           (Some (errors_New ''incorrect user ID supplied in packet''),
            s\<lparr>sent := sent s @ [(client, ErrorPacket ''Login failed.'')],
              closed := closed s @ [client]\<rparr>)
         \<and> Clients (snd (HandleLoginRequest env s client packet)) = Clients s"
  using assms
  by (simp add: HandleLoginRequest_def SendErrorPacket_def Send_def CloseConnection_def)

theorem HandleLoginRequest_id_mismatch_witness:
  "RetrieveProfile example_env
     (Token \<lparr>Type = PacketTypeLoginRequest, LoginRequestPacket.Name = ''Mallory'',
             LoginRequestPacket.ID = ''bob'', Token = ''alice-token''\<rparr>) = Inr (Identity ''alice'')
   \<and> identity_ID (Identity ''alice'') \<noteq> ''bob''
   \<and> HandleLoginRequest example_env example_server 13
        \<lparr>Type = PacketTypeLoginRequest, LoginRequestPacket.Name = ''Mallory'',
          LoginRequestPacket.ID = ''bob'', Token = ''alice-token''\<rparr>
       = (Some (errors_New ''incorrect user ID supplied in packet''),
          example_server\<lparr>sent := [(13, ErrorPacket ''Login failed.'')], closed := [13]\<rparr>)
   \<and> Clients (snd (HandleLoginRequest example_env example_server 13
        \<lparr>Type = PacketTypeLoginRequest, LoginRequestPacket.Name = ''Mallory'',
          LoginRequestPacket.ID = ''bob'', Token = ''alice-token''\<rparr>)) = [alice, bob, carol]"
proof -
  have profile: "RetrieveProfile example_env
     (Token \<lparr>Type = PacketTypeLoginRequest, LoginRequestPacket.Name = ''Mallory'',
             LoginRequestPacket.ID = ''bob'', Token = ''alice-token''\<rparr>) = Inr (Identity ''alice'')"
    by (simp add: example_env_def)
  have differs: "identity_ID (Identity ''alice'')
      \<noteq> LoginRequestPacket.ID \<lparr>Type = PacketTypeLoginRequest, LoginRequestPacket.Name = ''Mallory'',
             LoginRequestPacket.ID = ''bob'', Token = ''alice-token''\<rparr>"
    by simp
  show ?thesis
    using HandleLoginRequest_id_mismatch [OF profile differs, of example_server 13] profile
    by (simp add: example_server_def)
qed

subsection \<open>Version handshake\<close>

text \<open>
  Claim C2.  For every VersionPacket whose Version is not equal to ProtocolVersion,
  \<open>HandleVersionRequest\<close> sends exactly one error packet with message "Protocol
  version mismatch." to that connection and closes the connection, and the mismatch
  log entry is emitted only when debug logging is enabled; when Version equals
  ProtocolVersion it sends nothing and does not close the connection.  (Both cases log
  the line "HandleVersionPacket: ..." first.)
\<close>

theorem HandleVersionRequest_mismatch:
  "(Version packet \<noteq> ProtocolVersion env \<longrightarrow>
      HandleVersionRequest env s client packet =
        s\<lparr>logged := logged s @ LogHandleVersionPacket packet
                       # (if Debug s then [LogVersionMismatch client] else []),
          sent := sent s @ [(client, ErrorPacket ''Protocol version mismatch.'')],
          closed := closed s @ [client]\<rparr>)
   \<and> (Version packet = ProtocolVersion env \<longrightarrow>
      HandleVersionRequest env s client packet =
        s\<lparr>logged := logged s @ [LogHandleVersionPacket packet]\<rparr>)"
  by (simp add: HandleVersionRequest_def SendErrorPacket_def Send_def CloseConnection_def
      Log_def Let_def)

theorem HandleVersionRequest_mismatch_witness:
  "Version \<lparr>Type = PacketTypeVersionRequest, Version = 2\<rparr> \<noteq> ProtocolVersion example_env
   \<and> HandleVersionRequest example_env example_server 13
        \<lparr>Type = PacketTypeVersionRequest, Version = 2\<rparr> =
       example_server
         \<lparr>logged := [LogHandleVersionPacket \<lparr>Type = PacketTypeVersionRequest, Version = 2\<rparr>,
                     LogVersionMismatch 13],
          sent := [(13, ErrorPacket ''Protocol version mismatch.'')],
          closed := [13]\<rparr>
   \<and> Version \<lparr>Type = PacketTypeVersionRequest, Version = 1\<rparr> = ProtocolVersion example_env
   \<and> HandleVersionRequest example_env example_server 13
        \<lparr>Type = PacketTypeVersionRequest, Version = 1\<rparr> =
       example_server
         \<lparr>logged := [LogHandleVersionPacket \<lparr>Type = PacketTypeVersionRequest, Version = 1\<rparr>]\<rparr>"
  using HandleVersionRequest_mismatch
          [of "\<lparr>Type = PacketTypeVersionRequest, Version = 2\<rparr>" example_env example_server 13]
        HandleVersionRequest_mismatch
          [of "\<lparr>Type = PacketTypeVersionRequest, Version = 1\<rparr>" example_env example_server 13]
  by (simp add: example_env_def example_server_def)

subsection \<open>Kick\<close>

text \<open>
  Claim C3.  For every LobbyKickRequest whose requester resolves to a Player, whose
  target ID resolves to a Player (the target) and whose requester is found in a lobby:
  if the requester is not the Host of that lobby, \<open>HandleLobbyKickRequest\<close> logs the
  attempt, returns an authorization error and changes nothing else (the target remains
  a member, no member set changes); if the requester is the Host, the target is removed
  from the lobby's member set and a LobbyKickResponse(targetID, true) is sent to the
  requester and to the target.
\<close>

theorem HandleLobbyKickRequest_authorization:
  assumes "FindPlayerByConnection s client = Inr player"
      and "FindPlayerByID s (Target packet) = Inr targetPlayer"
      and "FindLobbyByPlayer s player = Inr i"
  shows "(ref (host (Lobbies s ! i)) \<noteq> ref player \<longrightarrow>
            HandleLobbyKickRequest env s client packet =
              (Some (errors_New ''insufficient privileges; must be lobby host to kick users''),
               s\<lparr>logged := logged s @ [LogKickDenied (Name player) (Name targetPlayer)]\<rparr>))
       \<and> (ref (host (Lobbies s ! i)) = ref player \<longrightarrow>
            HandleLobbyKickRequest env s client packet =
              (None,
               s\<lparr>Lobbies := (Lobbies s)[i := Lobby_RemovePlayer (Lobbies s ! i) targetPlayer],
                 sent := sent s @ [(Client player, LobbyKickResponse (Target packet) True),
                                   (Client targetPlayer, LobbyKickResponse (Target packet) True)]\<rparr>)
            \<and> \<not> is_member targetPlayer
                  (Lobbies (snd (HandleLobbyKickRequest env s client packet)) ! i))"
proof -
  have tid: "Player.ID targetPlayer = Target packet"
    using assms(2) by (rule FindPlayerByID_ID)
  have bound: "i < length (Lobbies s)"
    using assms(3) by (rule FindLobbyByPlayer_bound)
  show ?thesis
    using assms tid bound
    by (simp add: HandleLobbyKickRequest_def SendLobbyKickResponse_def Send_def Log_def Let_def
        not_member_Remove)
qed

theorem HandleLobbyKickRequest_authorization_witness:
  "FindPlayerByConnection example_server 11 = Inr bob
   \<and> FindPlayerByID example_server ''alice'' = Inr alice
   \<and> FindLobbyByPlayer example_server bob = Inr 0
   \<and> ref (host (Lobbies example_server ! 0)) \<noteq> ref bob
   \<and> HandleLobbyKickRequest example_env example_server 11
        \<lparr>Type = PacketTypeLobbyKickRequest, Target = ''alice''\<rparr> =
       (Some (errors_New ''insufficient privileges; must be lobby host to kick users''),
        example_server\<lparr>logged := [LogKickDenied ''Bob'' ''Alice'']\<rparr>)
   \<and> FindPlayerByConnection example_server 10 = Inr alice
   \<and> FindPlayerByID example_server ''bob'' = Inr bob
   \<and> FindLobbyByPlayer example_server alice = Inr 0
   \<and> ref (host (Lobbies example_server ! 0)) = ref alice
   \<and> HandleLobbyKickRequest example_env example_server 10
        \<lparr>Type = PacketTypeLobbyKickRequest, Target = ''bob''\<rparr> =
       (None,
        example_server\<lparr>Lobbies := [example_lobby\<lparr>players := [alice]\<rparr>],
                        sent := [(10, LobbyKickResponse ''bob'' True),
                                 (11, LobbyKickResponse ''bob'' True)]\<rparr>)"
proof -
  have b1: "FindPlayerByConnection example_server 11 = Inr bob"
    and b2: "FindPlayerByID example_server
               (Target \<lparr>Type = PacketTypeLobbyKickRequest, Target = ''alice''\<rparr>) = Inr alice"
    and b3: "FindLobbyByPlayer example_server bob = Inr 0"
    and a1: "FindPlayerByConnection example_server 10 = Inr alice"
    and a2: "FindPlayerByID example_server
               (Target \<lparr>Type = PacketTypeLobbyKickRequest, Target = ''bob''\<rparr>) = Inr bob"
    and a3: "FindLobbyByPlayer example_server alice = Inr 0"
    by (simp_all add: lookup_defs example_defs)
  show ?thesis
    using HandleLobbyKickRequest_authorization [OF b1 b2 b3, of example_env]
          HandleLobbyKickRequest_authorization [OF a1 a2 a3, of example_env]
          b1 b2 b3 a1 a2 a3
    by (simp add: example_defs Lobby_RemovePlayer_def)
qed

text \<open>
  The lookups come first: a request whose requester, target or requester's lobby does
  not resolve fails with the error of that lookup, before the host check, and changes
  nothing.
\<close>

lemma HandleLobbyKickRequest_lookup_fails:
  "FindPlayerByConnection s client = Inl e \<Longrightarrow>
     HandleLobbyKickRequest env s client packet = (Some e, s)"
  "FindPlayerByConnection s client = Inr player \<Longrightarrow>
   FindPlayerByID s (Target packet) = Inl e \<Longrightarrow>
     HandleLobbyKickRequest env s client packet = (Some e, s)"
  "FindPlayerByConnection s client = Inr player \<Longrightarrow>
   FindPlayerByID s (Target packet) = Inr targetPlayer \<Longrightarrow>
   FindLobbyByPlayer s player = Inl e \<Longrightarrow>
     HandleLobbyKickRequest env s client packet = (Some e, s)"
  by (simp_all add: HandleLobbyKickRequest_def)

text \<open>
  Claim C10.  For every LobbyKickRequest where the requester is the Host of the lobby
  it is found in and the target ID resolves to any registered Player,
  \<open>HandleLobbyKickRequest\<close> returns success and sends LobbyKickResponse(targetID,
  true) to both requester and target, whether or not the target is a member of that
  lobby: nothing in the hypotheses says it is.
\<close>

theorem HandleLobbyKickRequest_no_membership_check:
  assumes "FindPlayerByConnection s client = Inr player"
      and "FindPlayerByID s (Target packet) = Inr targetPlayer"
      and "FindLobbyByPlayer s player = Inr i"
      and "ref (host (Lobbies s ! i)) = ref player"
  shows "fst (HandleLobbyKickRequest env s client packet) = None
       \<and> sent (snd (HandleLobbyKickRequest env s client packet)) =
           sent s @ [(Client player, LobbyKickResponse (Target packet) True),
                     (Client targetPlayer, LobbyKickResponse (Target packet) True)]"
proof -
  have tid: "Player.ID targetPlayer = Target packet"
    using assms(2) by (rule FindPlayerByID_ID)
  show ?thesis
    using assms tid
    by (simp add: HandleLobbyKickRequest_def SendLobbyKickResponse_def Send_def Let_def)
qed

theorem HandleLobbyKickRequest_no_membership_check_witness:
  "FindPlayerByConnection example_server 10 = Inr alice
   \<and> FindPlayerByID example_server ''carol'' = Inr carol
   \<and> FindLobbyByPlayer example_server alice = Inr 0
   \<and> ref (host (Lobbies example_server ! 0)) = ref alice
   \<and> \<not> is_member carol (Lobbies example_server ! 0)
   \<and> fst (HandleLobbyKickRequest example_env example_server 10
        \<lparr>Type = PacketTypeLobbyKickRequest, Target = ''carol''\<rparr>) = None
   \<and> sent (snd (HandleLobbyKickRequest example_env example_server 10
        \<lparr>Type = PacketTypeLobbyKickRequest, Target = ''carol''\<rparr>)) =
       [(10, LobbyKickResponse ''carol'' True), (12, LobbyKickResponse ''carol'' True)]"
proof -
  have a1: "FindPlayerByConnection example_server 10 = Inr alice"
    and a2: "FindPlayerByID example_server
               (Target \<lparr>Type = PacketTypeLobbyKickRequest, Target = ''carol''\<rparr>) = Inr carol"
    and a3: "FindLobbyByPlayer example_server alice = Inr 0"
    and a4: "ref (host (Lobbies example_server ! 0)) = ref alice"
    by (simp_all add: lookup_defs example_defs)
  show ?thesis
    using HandleLobbyKickRequest_no_membership_check [OF a1 a2 a3 a4, of example_env]
          a1 a2 a3 a4
    by (simp add: example_defs is_member_def)
qed

subsection \<open>Join and leave\<close>

text \<open>
  Claim C4.  For every JoinLobbyRequest from a logged-in player,
  \<open>HandleJoinLobbyRequest\<close> resolves the target lobby by ID first and falls back to the
  lookup by Name only when the lookup by ID fails; whenever either lookup succeeds, the
  requester is added to the lobby's member set and a JoinLobbyResponse(lobbyName,
  lobbyID, true) is sent to every current member of that lobby, including the joiner.
  The lobby's Members are a set: no Player reference occurs in it twice (the handlers
  keep it so, see \<open>HandlePacket_sets\<close>; the loop of the handler locks every member
  and holds the locks until it returns).
\<close>

theorem HandleJoinLobbyRequest_resolution:
  assumes "FindPlayerByConnection s client = Inr player"
  shows "(FindLobbyByID s (JoinLobbyRequestPacket.ID packet) = Inr i
            \<and> distinct (map ref (players (Lobbies s ! i))) \<longrightarrow>
          HandleJoinLobbyRequest env s client packet = (Returns None, join_spec s i player)
            \<and> is_member player (Lobbies (join_spec s i player) ! i)
            \<and> (\<forall>member \<in> set (players (Lobbies (join_spec s i player) ! i)).
                  (Client member,
                   JoinLobbyResponse (name (Lobbies s ! i)) (lobbyID (Lobbies s ! i)) True)
                    \<in> set (drop (length (sent s)) (sent (join_spec s i player)))))
       \<and> (FindLobbyByID s (JoinLobbyRequestPacket.ID packet) = Inl e
            \<and> FindLobbyByName s (JoinLobbyRequestPacket.Name packet) = Inr j
            \<and> distinct (map ref (players (Lobbies s ! j))) \<longrightarrow>
          HandleJoinLobbyRequest env s client packet = (Returns None, join_spec s j player)
            \<and> is_member player (Lobbies (join_spec s j player) ! j)
            \<and> (\<forall>member \<in> set (players (Lobbies (join_spec s j player) ! j)).
                  (Client member,
                   JoinLobbyResponse (name (Lobbies s ! j)) (lobbyID (Lobbies s ! j)) True)
                    \<in> set (drop (length (sent s)) (sent (join_spec s j player)))))"
  using assms
  by (auto simp: HandleJoinLobbyRequest_def join_found_distinct join_spec_members
      dest: FindLobbyByID_bound FindLobbyByName_bound)

theorem HandleJoinLobbyRequest_resolution_witness:
  "FindPlayerByConnection example_server 12 = Inr carol
   \<and> FindLobbyByID example_server 3 = Inr 0
   \<and> distinct (map ref (players (Lobbies example_server ! 0)))
   \<and> HandleJoinLobbyRequest example_env example_server 12
        \<lparr>Type = PacketTypeJoinLobbyRequest, JoinLobbyRequestPacket.ID = 3,
          JoinLobbyRequestPacket.Name = ''Bar''\<rparr> =
       (Returns None,
        example_server\<lparr>Lobbies := [example_lobby\<lparr>players := [alice, bob, carol]\<rparr>],
                        sent := [(10, JoinLobbyResponse ''Foo'' 3 True),
                                 (11, JoinLobbyResponse ''Foo'' 3 True),
                                 (12, JoinLobbyResponse ''Foo'' 3 True)]\<rparr>)
   \<and> FindLobbyByID example_server 0 = Inl LookupError
   \<and> FindLobbyByName example_server ''Foo'' = Inr 0
   \<and> HandleJoinLobbyRequest example_env example_server 12
        \<lparr>Type = PacketTypeJoinLobbyRequest, JoinLobbyRequestPacket.ID = 0,
          JoinLobbyRequestPacket.Name = ''Foo''\<rparr> =
       (Returns None,
        example_server\<lparr>Lobbies := [example_lobby\<lparr>players := [alice, bob, carol]\<rparr>],
                        sent := [(10, JoinLobbyResponse ''Foo'' 3 True),
                                 (11, JoinLobbyResponse ''Foo'' 3 True),
                                 (12, JoinLobbyResponse ''Foo'' 3 True)]\<rparr>)"
proof -
  have c: "FindPlayerByConnection example_server 12 = Inr carol"
    and by_id: "FindLobbyByID example_server 3 = Inr 0"
    and no_id: "FindLobbyByID example_server 0 = Inl LookupError"
    and by_name: "FindLobbyByName example_server ''Foo'' = Inr 0"
    and set: "distinct (map ref (players (Lobbies example_server ! 0)))"
    by (simp_all add: lookup_defs example_defs)
  have after: "join_spec example_server 0 carol =
      example_server\<lparr>Lobbies := [example_lobby\<lparr>players := [alice, bob, carol]\<rparr>],
                      sent := [(10, JoinLobbyResponse ''Foo'' 3 True),
                               (11, JoinLobbyResponse ''Foo'' 3 True),
                               (12, JoinLobbyResponse ''Foo'' 3 True)]\<rparr>"
    by (simp add: join_spec_def Lobby_AddPlayer_def is_member_def example_defs)
  show ?thesis
    using HandleJoinLobbyRequest_resolution [OF c, where env = example_env and i = 0
            and packet = "\<lparr>Type = PacketTypeJoinLobbyRequest, JoinLobbyRequestPacket.ID = 3,
                            JoinLobbyRequestPacket.Name = ''Bar''\<rparr>"]
          HandleJoinLobbyRequest_resolution [OF c, where env = example_env and j = 0
            and e = LookupError
            and packet = "\<lparr>Type = PacketTypeJoinLobbyRequest, JoinLobbyRequestPacket.ID = 0,
                            JoinLobbyRequestPacket.Name = ''Foo''\<rparr>"]
          c by_id no_id by_name set
    by (simp add: after)
qed

text \<open>
  Claim C5.  For every JoinLobbyRequest from a logged-in player where neither the
  lookup by ID nor the lookup by Name finds a lobby, \<open>HandleJoinLobbyRequest\<close> fails
  with the error "no such lobby found" and has no side effects: the server state,
  with every lobby's member set and the packets sent, is unchanged.
\<close>

theorem HandleJoinLobbyRequest_no_lobby:
  assumes "FindPlayerByConnection s client = Inr player"
      and "FindLobbyByID s (JoinLobbyRequestPacket.ID packet) = Inl e1"
      and "FindLobbyByName s (JoinLobbyRequestPacket.Name packet) = Inl e2"
  shows "HandleJoinLobbyRequest env s client packet =
           (Returns (Some (errors_New ''no such lobby found'')), s)"
  using assms by (simp add: HandleJoinLobbyRequest_def)

theorem HandleJoinLobbyRequest_no_lobby_witness:
  "FindPlayerByConnection example_server 12 = Inr carol
   \<and> FindLobbyByID example_server 0 = Inl LookupError
   \<and> FindLobbyByName example_server ''Bar'' = Inl LookupError
   \<and> HandleJoinLobbyRequest example_env example_server 12
        \<lparr>Type = PacketTypeJoinLobbyRequest, JoinLobbyRequestPacket.ID = 0,
          JoinLobbyRequestPacket.Name = ''Bar''\<rparr> =
       (Returns (Some (errors_New ''no such lobby found'')), example_server)"
proof -
  have c: "FindPlayerByConnection example_server 12 = Inr carol"
    and no_id: "FindLobbyByID example_server
        (JoinLobbyRequestPacket.ID \<lparr>Type = PacketTypeJoinLobbyRequest,
           JoinLobbyRequestPacket.ID = 0, JoinLobbyRequestPacket.Name = ''Bar''\<rparr>) = Inl LookupError"
    and no_name: "FindLobbyByName example_server
        (JoinLobbyRequestPacket.Name \<lparr>Type = PacketTypeJoinLobbyRequest,
           JoinLobbyRequestPacket.ID = 0, JoinLobbyRequestPacket.Name = ''Bar''\<rparr>) = Inl LookupError"
    by (simp_all add: lookup_defs example_defs)
  show ?thesis
    using HandleJoinLobbyRequest_no_lobby [OF c no_id no_name, of example_env] c no_id no_name
    by simp
qed

text \<open>
  Claim C6.  For every LeaveLobbyRequest from a logged-in player that is not currently
  a member of any lobby, \<open>HandleLeaveLobbyRequest\<close> fails with the state error "player
  is not in a lobby" before any lobby lookup or mutation: the result does not depend
  on the packet, and the server state, with every lobby's member set, is unchanged.
\<close>

theorem HandleLeaveLobbyRequest_not_member:
  assumes "FindPlayerByConnection s client = Inr player"
      and "\<forall>lobby \<in> set (Lobbies s). \<not> is_member player lobby"
  shows "HandleLeaveLobbyRequest env s client packet =
           (Returns (Some (errors_New ''player is not in a lobby'')), s)"
proof -
  have "\<not> PlayerHasLobby s player"
    using assms(2) by (simp add: PlayerHasLobby_def list_ex_iff)
  with assms(1) show ?thesis by (simp add: HandleLeaveLobbyRequest_def)
qed

theorem HandleLeaveLobbyRequest_not_member_witness:
  "FindPlayerByConnection example_server 12 = Inr carol
   \<and> Lobbies example_server = [example_lobby]
   \<and> \<not> is_member carol example_lobby
   \<and> HandleLeaveLobbyRequest example_env example_server 12
        \<lparr>Type = PacketTypeLeaveLobbyRequest, LeaveLobbyRequestPacket.ID = 3,
          LeaveLobbyRequestPacket.Name = ''Foo''\<rparr> =
       (Returns (Some (errors_New ''player is not in a lobby'')), example_server)"
proof -
  have c: "FindPlayerByConnection example_server 12 = Inr carol"
    and none: "\<forall>lobby \<in> set (Lobbies example_server). \<not> is_member carol lobby"
    by (simp_all add: lookup_defs example_defs)
  show ?thesis
    using HandleLeaveLobbyRequest_not_member [OF c none, of example_env] c none
    by (simp add: example_server_def)
qed

subsection \<open>Exit\<close>

text \<open>
  Claim C8.  After \<open>HandleExitRequest\<close> completes successfully for a connection that
  resolves to a registered Player, that Player is absent from the Player Registry and
  absent from every Lobby's member set.
\<close>

theorem HandleExitRequest_removes_player:
  assumes "FindPlayerByConnection s client = Inr player"
  shows "fst (HandleExitRequest env s client packet) = None
       \<and> player \<notin> set (Clients (snd (HandleExitRequest env s client packet)))
       \<and> ref player \<notin> set (map ref (Clients (snd (HandleExitRequest env s client packet))))
       \<and> (\<forall>lobby \<in> set (Lobbies (snd (HandleExitRequest env s client packet))).
             \<not> is_member player lobby)"
  using assms
  by (auto simp: HandleExitRequest_def RemovePlayer_def CloseConnection_def Let_def
      not_member_Remove)

theorem HandleExitRequest_removes_player_witness:
  "FindPlayerByConnection example_server 11 = Inr bob
   \<and> fst (HandleExitRequest example_env example_server 11 \<lparr>Type = PacketTypeExit\<rparr>) = None
   \<and> Clients (snd (HandleExitRequest example_env example_server 11 \<lparr>Type = PacketTypeExit\<rparr>))
       = [alice, carol]
   \<and> Lobbies (snd (HandleExitRequest example_env example_server 11 \<lparr>Type = PacketTypeExit\<rparr>))
       = [example_lobby\<lparr>players := [alice]\<rparr>]
   \<and> bob \<notin> set (Clients (snd (HandleExitRequest example_env example_server 11
                                  \<lparr>Type = PacketTypeExit\<rparr>)))
   \<and> \<not> is_member bob (example_lobby\<lparr>players := [alice]\<rparr>)"
proof -
  have b: "FindPlayerByConnection example_server 11 = Inr bob"
    by (simp add: lookup_defs example_defs)
  have after: "HandleExitRequest example_env example_server 11 \<lparr>Type = PacketTypeExit\<rparr> =
      (None, example_server\<lparr>Clients := [alice, carol],
                             Lobbies := [example_lobby\<lparr>players := [alice]\<rparr>],
                             closed := [11]\<rparr>)"
    by (simp add: HandleExitRequest_def FindPlayerByConnection_def CloseConnection_def
        RemovePlayer_def Lobby_RemovePlayer_def example_defs)
  show ?thesis
    using HandleExitRequest_removes_player
            [OF b, of example_env "\<lparr>Type = PacketTypeExit\<rparr>"] b
    by (simp add: after)
qed

subsection \<open>The dispatcher\<close>

text \<open>What the switch of \<open>HandlePacket\<close> does: its eight cases, and every other tag.\<close>

lemma HandlePacket_cases:
  "HandlePacket env s client (PktVersion (p1\<lparr>Type := PacketTypeVersionRequest\<rparr>)) =
     (Returns (), HandleVersionRequest env s client (p1\<lparr>Type := PacketTypeVersionRequest\<rparr>))"
  "HandlePacket env s client (PktLoginRequest (p2\<lparr>Type := PacketTypeLoginRequest\<rparr>)) =
     discard (HandleLoginRequest env s client (p2\<lparr>Type := PacketTypeLoginRequest\<rparr>))"
  "HandlePacket env s client (PktGlobalChatRequest (p3\<lparr>Type := PacketTypeGlobalChatRequest\<rparr>)) =
     discard_outcome
       (HandleGlobalChatRequest env s client (p3\<lparr>Type := PacketTypeGlobalChatRequest\<rparr>))"
  "HandlePacket env s client (PktPlayerListRequest (p4\<lparr>Type := PacketTypePlayerListRequest\<rparr>)) =
     discard (HandlePlayerListRequest env s client (p4\<lparr>Type := PacketTypePlayerListRequest\<rparr>))"
  "HandlePacket env s client (PktCreateLobbyRequest (p5\<lparr>Type := PacketTypeCreateLobbyRequest\<rparr>)) =
     discard (HandleCreateLobbyRequest env s client (p5\<lparr>Type := PacketTypeCreateLobbyRequest\<rparr>))"
  "HandlePacket env s client (PktLobbyListRequest (p6\<lparr>Type := PacketTypeLobbyListRequest\<rparr>)) =
     discard (HandleLobbyListRequest env s client (p6\<lparr>Type := PacketTypeLobbyListRequest\<rparr>))"
  "HandlePacket env s client (PktJoinLobbyRequest (p7\<lparr>Type := PacketTypeJoinLobbyRequest\<rparr>)) =
     discard_outcome
       (HandleJoinLobbyRequest env s client (p7\<lparr>Type := PacketTypeJoinLobbyRequest\<rparr>))"
  "HandlePacket env s client (PktLeaveLobbyRequest (p8\<lparr>Type := PacketTypeLeaveLobbyRequest\<rparr>)) =
     discard_outcome
       (HandleLeaveLobbyRequest env s client (p8\<lparr>Type := PacketTypeLeaveLobbyRequest\<rparr>))"
  by (simp_all add: HandlePacket_def)

lemma HandlePacket_unmatched:
  assumes "Type (GetHeader packet) \<notin>
             {PacketTypeVersionRequest, PacketTypeLoginRequest, PacketTypeGlobalChatRequest,
              PacketTypePlayerListRequest, PacketTypeCreateLobbyRequest,
              PacketTypeLobbyListRequest, PacketTypeJoinLobbyRequest,
              PacketTypeLeaveLobbyRequest}"
  shows "HandlePacket env s client packet = (Returns (), s)"
  using assms by (cases "Type (GetHeader packet)") (simp_all add: HandlePacket_def)

text \<open>
  Claim C7.  The claim: for every inbound packet \<open>HandlePacket\<close> invokes exactly one
  handler, the one matching the type tag, for each of the request types VersionRequest,
  LoginRequest, ExitRequest, CreateLobbyRequest, PlayerListRequest, GlobalChatRequest,
  LobbyChatRequest, LobbyListRequest, JoinLobbyRequest, LeaveLobbyRequest and
  LobbyKickRequest, and for any other tag it invokes no handler.  The switch has no
  case for the tags of ExitRequest, LobbyChatRequest and LobbyKickRequest, although
  the file defines their handlers.  At an exit packet of Bob's connection
  \<open>HandlePacket\<close> leaves the server as it is, where \<open>HandleExitRequest\<close> closes the
  connection and removes Bob.
\<close>

theorem HandlePacket_exit_not_dispatched:
  "HandlePacket example_env example_server 11 (PktExit \<lparr>Type = PacketTypeExit\<rparr>)
     = (Returns (), example_server)
   \<and> HandleExitRequest example_env example_server 11 \<lparr>Type = PacketTypeExit\<rparr>
     = (None, example_server\<lparr>Clients := [alice, carol],
                              Lobbies := [example_lobby\<lparr>players := [alice]\<rparr>],
                              closed := [11]\<rparr>)"
  by (simp add: HandlePacket_def HandleExitRequest_def FindPlayerByConnection_def
      CloseConnection_def RemovePlayer_def Lobby_RemovePlayer_def example_defs)

subsection \<open>The client's sequence counter\<close>

lemmas Send_defs =
  SendVersionRequest_def SendExitRequest_def SendLoginRequest_def SendCreateLobbyRequest_def
  SendGetCardPile_def SendPlayerListRequest_def SendGlobalChatRequest_def
  SendLobbyListRequest_def SendJoinLobbyRequest_def WritePacket_def Let_def

lemma send_call_Sequence:
  "Sequence (fst (snd (send_call env call st))) = Sequence (fst st) + 1"
  by (cases call; cases st) (simp_all add: Send_defs)

lemma send_call_wire:
  "length (snd (snd (send_call env call st))) = Suc (length (snd st))"
  by (cases call; cases st) (simp_all add: Send_defs)

lemma send_calls_Sequence:
  "Sequence (fst (send_calls env calls st)) = Sequence (fst st) + of_nat (length calls)"
  by (induction calls arbitrary: st) (simp_all add: send_call_Sequence)

text \<open>
  Claim C9, as amended.  Every \<open>Send*\<close> method of the client writes one packet and
  then adds one to the 16-bit \<open>Sequence\<close> counter, whether or not the write failed.
  The addition wraps: the counter after a send is the counter before it plus one
  modulo 65536.  Over a sequence of sends that does not take the counter past 65535
  the counter grows by the number of sends.
\<close>

theorem Send_increments_Sequence:
  "Sequence (fst (snd (send_call env call st))) = Sequence (fst st) + 1
   \<and> length (snd (snd (send_call env call st))) = Suc (length (snd st))
   \<and> unat (Sequence (fst (snd (send_call env call st)))) = (unat (Sequence (fst st)) + 1) mod 65536
   \<and> (unat (Sequence (fst st)) + length calls < 65536 \<longrightarrow>
        unat (Sequence (fst (send_calls env calls st))) = unat (Sequence (fst st)) + length calls)"
proof -
  have one: "Sequence (fst (snd (send_call env call st))) = Sequence (fst st) + 1"
    by (rule send_call_Sequence)
  have wrap: "unat (Sequence (fst st) + 1) = (unat (Sequence (fst st)) + 1) mod 65536"
    by (simp add: unat_word_ariths)
  have many: "unat (Sequence (fst (send_calls env calls st))) = unat (Sequence (fst st)) + length calls"
    if "unat (Sequence (fst st)) + length calls < 65536"
  proof -
    have "unat (Sequence (fst st) + of_nat (length calls))
            = (unat (Sequence (fst st)) + length calls) mod 65536"
      by (simp add: unat_word_ariths unat_of_nat mod_add_right_eq)
    with that show ?thesis by (simp add: send_calls_Sequence)
  qed
  from one wrap many show ?thesis by (simp add: send_call_wire)
qed

theorem Send_increments_Sequence_witness:
  "unat (Sequence (fst (example_client, [])))
     + length [CallSendVersionRequest, CallSendLoginRequest ''Alice'' ''alice'' ''alice-token'']
     < 65536
   \<and> unat (Sequence (fst (send_calls example_env
        [CallSendVersionRequest, CallSendLoginRequest ''Alice'' ''alice'' ''alice-token'']
        (example_client, [])))) = 65535
   \<and> unat (Sequence (fst (snd (send_call example_env CallSendExitRequest (example_client, [])))))
       = 65534"
  using Send_increments_Sequence [of example_env CallSendExitRequest "(example_client, [])"
          "[CallSendVersionRequest, CallSendLoginRequest ''Alice'' ''alice'' ''alice-token'']"]
  by (simp add: example_client_def)

text \<open>
  The claim as first stated ("increments the counter by exactly one, so over any
  sequence of sends the counter is monotonically increasing") fails at the largest
  value of the counter: the send after 65535 sets it to 0.
\<close>

theorem Sequence_wraps_counterexample:
  "unat (Sequence example_client_at_max) = 65535
   \<and> unat (Sequence (fst (snd (SendVersionRequest example_env (example_client_at_max, []))))) = 0
   \<and> \<not> Sequence example_client_at_max
        \<le> Sequence (fst (snd (SendVersionRequest example_env (example_client_at_max, []))))"
  by (simp add: SendVersionRequest_def WritePacket_def Let_def example_client_at_max_def)

subsection \<open>The Member sets stay sets\<close>

text \<open>
  Every handler keeps the Member sets free of repeated references, and the server
  starts with no lobby: the states the dispatcher reaches satisfy the hypothesis under
  which a join returns.
\<close>

lemma Lobbies_Send [simp]: "Lobbies (snd (Send env s conn packet)) = Lobbies s"
  by (simp add: Send_def)

lemma Lobbies_Log [simp]: "Lobbies (Log s entry) = Lobbies s"
  by (simp add: Log_def)

lemma Lobbies_locked_sends [simp]:
  "Lobbies (snd (locked_sends env packet held ps s)) = Lobbies s"
  by (induction ps arbitrary: held s) simp_all

lemma Lobbies_plain_sends [simp]: "Lobbies (plain_sends env packet ps s) = Lobbies s"
  by (induction ps arbitrary: s) simp_all

lemma snd_return_nil [simp]: "snd (return_nil r) = snd r"
  by (cases r; cases "fst r") (simp_all add: return_nil_def)

lemma snd_discard_outcome [simp]: "snd (discard_outcome r) = snd r"
  by (cases r; cases "fst r") (simp_all add: discard_outcome_def)

lemma distinct_RemovePlayer:
  "distinct (map ref (players l)) \<Longrightarrow> distinct (map ref (players (Lobby_RemovePlayer l p)))"
  by (simp add: Lobby_RemovePlayer_def distinct_map_filter)

lemma list_all_update:
  "list_all P xs \<Longrightarrow> (i < length xs \<Longrightarrow> P y) \<Longrightarrow> list_all P (xs[i := y])"
  by (cases "i < length xs") (auto simp: list_all_length nth_list_update)

lemma members_are_sets_add:
  assumes "members_are_sets s"
  shows "members_are_sets (s\<lparr>Lobbies := (Lobbies s)[i := Lobby_AddPlayer (Lobbies s ! i) p]\<rparr>)"
proof -
  have all: "list_all (\<lambda>lobby. distinct (map ref (players lobby))) (Lobbies s)"
    using assms by (simp add: members_are_sets_def)
  have "distinct (map ref (players (Lobby_AddPlayer (Lobbies s ! i) p)))"
    if "i < length (Lobbies s)"
    using all that by (simp add: list_all_length distinct_AddPlayer)
  with all have "list_all (\<lambda>lobby. distinct (map ref (players lobby)))
      ((Lobbies s)[i := Lobby_AddPlayer (Lobbies s ! i) p])"
    by (rule list_all_update)
  then show ?thesis by (simp add: members_are_sets_def)
qed

lemma members_are_sets_remove:
  assumes "members_are_sets s"
  shows "members_are_sets (s\<lparr>Lobbies := (Lobbies s)[i := Lobby_RemovePlayer (Lobbies s ! i) p]\<rparr>)"
proof -
  have all: "list_all (\<lambda>lobby. distinct (map ref (players lobby))) (Lobbies s)"
    using assms by (simp add: members_are_sets_def)
  have "distinct (map ref (players (Lobby_RemovePlayer (Lobbies s ! i) p)))"
    if "i < length (Lobbies s)"
    using all that by (simp add: list_all_length distinct_RemovePlayer)
  with all have "list_all (\<lambda>lobby. distinct (map ref (players lobby)))
      ((Lobbies s)[i := Lobby_RemovePlayer (Lobbies s ! i) p])"
    by (rule list_all_update)
  then show ?thesis by (simp add: members_are_sets_def)
qed

lemma Version_sets: "members_are_sets s \<Longrightarrow> members_are_sets (HandleVersionRequest env s client p)"
  by (simp add: members_are_sets_def HandleVersionRequest_def SendErrorPacket_def
      CloseConnection_def Let_def)

lemma Login_sets:
  "members_are_sets s \<Longrightarrow> members_are_sets (snd (HandleLoginRequest env s client p))"
  by (simp add: members_are_sets_def HandleLoginRequest_def SendErrorPacket_def
      CloseConnection_def NewPlayer_def AddPlayer_def Let_def split: sum.splits)

lemma GlobalChat_sets:
  "members_are_sets s \<Longrightarrow> members_are_sets (snd (HandleGlobalChatRequest env s client p))"
proof -
  assume wf: "members_are_sets s"
  have loop: "Lobbies s1 = Lobbies s" if "locked_sends env packet [] ps s = (r, s1)"
    for packet ps r s1
    using Lobbies_locked_sends [of env packet "[]" ps s] that by simp
  show ?thesis
    using wf
    by (auto simp: members_are_sets_def HandleGlobalChatRequest_def Let_def
        split: sum.splits prod.splits outcome.splits dest: loop)
qed

lemma PlayerList_sets:
  "members_are_sets s \<Longrightarrow> members_are_sets (snd (HandlePlayerListRequest env s client p))"
  by (simp add: members_are_sets_def HandlePlayerListRequest_def SendPlayerListResponse_def
      Send_def Let_def split: sum.splits option.splits)

lemma CreateLobby_sets:
  "members_are_sets s \<Longrightarrow> members_are_sets (snd (HandleCreateLobbyRequest env s client p))"
  by (simp add: members_are_sets_def HandleCreateLobbyRequest_def SendCreateLobbyResponse_def
      AddLobby_def Let_def split: sum.splits)

lemma LobbyList_sets:
  "members_are_sets s \<Longrightarrow> members_are_sets (snd (HandleLobbyListRequest env s client p))"
  by (simp add: members_are_sets_def HandleLobbyListRequest_def SendLobbyListResponse_def
      Let_def split: sum.splits)

lemma Join_sets:
  "members_are_sets s \<Longrightarrow> members_are_sets (snd (HandleJoinLobbyRequest env s client p))"
proof -
  assume wf: "members_are_sets s"
  have found: "members_are_sets (snd (join_found env s i player))" for i player
    using members_are_sets_add [OF wf, of i player]
    by (simp add: join_found_def Let_def members_are_sets_def)
  show ?thesis
    using wf by (simp add: HandleJoinLobbyRequest_def found split: sum.splits)
qed

lemma Leave_sets:
  "members_are_sets s \<Longrightarrow> members_are_sets (snd (HandleLeaveLobbyRequest env s client p))"
proof -
  assume wf: "members_are_sets s"
  have removed: "members_are_sets
      (s\<lparr>Lobbies := (Lobbies s)[i := Lobby_RemovePlayer (Lobbies s ! i) player]\<rparr>)" for i player
    using wf by (rule members_are_sets_remove)
  show ?thesis
    using wf removed
    by (simp add: HandleLeaveLobbyRequest_def Let_def members_are_sets_def split: sum.splits)
qed

lemma Exit_sets:
  "members_are_sets s \<Longrightarrow> members_are_sets (snd (HandleExitRequest env s client p))"
  by (auto simp: HandleExitRequest_def RemovePlayer_def CloseConnection_def Let_def
        members_are_sets_def list_all_iff distinct_RemovePlayer split: sum.splits)

lemma Kick_sets:
  "members_are_sets s \<Longrightarrow> members_are_sets (snd (HandleLobbyKickRequest env s client p))"
proof -
  assume wf: "members_are_sets s"
  have removed: "members_are_sets
      (s\<lparr>Lobbies := (Lobbies s)[i := Lobby_RemovePlayer (Lobbies s ! i) player]\<rparr>)" for i player
    using wf by (rule members_are_sets_remove)
  show ?thesis
    using wf removed
    by (simp add: HandleLobbyKickRequest_def SendLobbyKickResponse_def Let_def
        members_are_sets_def split: sum.splits)
qed

lemma HandlePacket_sets:
  assumes "members_are_sets s"
  shows "members_are_sets (snd (HandlePacket env s client packet))"
  using assms
  by (simp add: HandlePacket_def discard_def Version_sets Login_sets GlobalChat_sets
      PlayerList_sets CreateLobby_sets LobbyList_sets Join_sets Leave_sets
      split: PacketType.splits Packet.splits)

lemma empty_server_sets: "members_are_sets (empty_server debug)"
  by (simp add: members_are_sets_def empty_server_def)

end
